theory Spec2Isabelle
  imports Complex_Main "HOL-Library.AList"
begin

section \<open>Data model of the replay detail view\<close>

text \<open>
  The component \<open>FocusArea\<close> of \<open>static/app/views/replays/detail/focusArea.tsx\<close>
  switches between the panels of a replay's detail page. JavaScript numbers are only
  copied by this code, never computed with; they are \<open>real\<close> here. Objects whose
  identity the code depends on (the replay reader, the memoised array) carry a
  reference of type \<open>addr\<close>.
\<close>

type_synonym number = real
type_synonym addr = nat

text \<open>\<open>RawCrumb\<close>: \<open>category\<close> is optional in the source (\<open>breadcrumb.category || ''\<close>).\<close>

record RawCrumb =
  crumb_type :: string
  category :: "string option"
  message :: string

text \<open>
  A span is a plain object, and the source takes it apart and rebuilds it by its
  keys (\<open>{startTimestamp, endTimestamp, ...span}\<close> and
  \<open>{...span, timestamp: ...}\<close>), so it is a list of properties here, in insertion
  order. Reading a property gives the first entry of that key, \<open>undefined\<close> when there
  is none; \<open>AList.update\<close> writes a property as an object literal does (in place when
  the key exists, appended otherwise) and \<open>AList.delete\<close> removes it.
\<close>

datatype jsval = JUndefined | JNum number | JStr string | JObj "(string \<times> jsval) list"

type_synonym jsobject = "(string \<times> jsval) list"

definition js_get :: "jsobject \<Rightarrow> string \<Rightarrow> jsval" where
  "js_get obj k = (case map_of obj k of None \<Rightarrow> JUndefined | Some v \<Rightarrow> v)"

type_synonym RawSpan = jsobject

record Event =
  event_id :: string
  event_projectID :: string
  event_startTimestamp :: number

record Organization =
  features :: "string list"

text \<open>
  \<open>ReplayReader\<close> is imported, not defined, by the source. The model has the five
  members \<open>FocusArea\<close> uses; the two span predicates are members of the reader
  object, as in \<open>replay.isMemorySpan\<close>.
\<close>

record ReplayReader =
  getEvent :: Event
  getRawCrumbs :: "RawCrumb list"
  getRawSpans :: "RawSpan list"
  isMemorySpan :: "RawSpan \<Rightarrow> bool"
  isNotMemorySpan :: "RawSpan \<Rightarrow> bool"

text \<open>What \<open>useReplayContext()\<close> returns; the two setters are opaque handles.\<close>

record ReplayContext =
  currentTime :: number
  currentHoverTime :: "number option"
  setCurrentTime :: nat
  setCurrentHoverTime :: nat

text \<open>
  The values the three context hooks return during one render, and the imported
  predicate \<open>isBreadcrumbTypeDefault\<close>, none of which is defined in the sources.
\<close>

record Imports =
  isBreadcrumbTypeDefault :: "RawCrumb \<Rightarrow> bool"
  useActiveTabFromLocation :: string
  useReplayContext :: ReplayContext
  useOrganization :: Organization

text \<open>An array together with its reference.\<close>

record 'a jsarray =
  array_ref :: addr
  elems :: "'a list"

subsection \<open>The rendered output\<close>

datatype EntryType = SPANS

text \<open>The span objects built in the \<open>network\<close> case are objects too.\<close>

type_synonym Span = jsobject

record Entry =
  entry_type :: EntryType
  entry_data :: "Span list"

record TraceContext =
  trace_type :: string
  trace_op :: string
  trace_description :: string
  trace_span_id :: string
  trace_status :: string

text \<open>
  \<open>performanceEvent\<close> is \<open>{...event, contexts: {trace: ...}, entries: [...]}\<close>: the
  event's properties, with \<open>contexts\<close> and \<open>entries\<close> written after the spread, so that
  they replace properties of these names the event may have. \<open>contexts_trace\<close> and
  \<open>entries\<close> are the written ones; \<open>pe_event\<close> holds the properties of the event
  under other names.
\<close>

record PerformanceEvent =
  pe_event :: Event
  contexts_trace :: TraceContext
  entries :: "Entry list"

record MemoryChartProps =
  mc_currentTime :: number
  mc_currentHoverTime :: "number option"
  mc_memorySpans :: "RawSpan jsarray"
  mc_setCurrentTime :: nat
  mc_setCurrentHoverTime :: nat
  mc_startTimestamp :: number

datatype View =
    Placeholder string
  | Console "RawCrumb list" number
  | Spans Organization PerformanceEvent
  | Trace Organization Event
  | IssueList string string
  | TagsTable Event string
  | MemoryChart MemoryChartProps
  | RenderNull

section \<open>Filtering breadcrumbs\<close>

definition getBreadcrumbsByCategory ::
  "(RawCrumb \<Rightarrow> bool) \<Rightarrow> RawCrumb list \<Rightarrow> string list \<Rightarrow> RawCrumb list" where
  "getBreadcrumbsByCategory isDefault breadcrumbs categories =
     filter (\<lambda>breadcrumb.
               (case category breadcrumb of
                  None \<Rightarrow> ''''
                | Some c \<Rightarrow> if c = '''' then '''' else c) \<in> set categories)
       (filter isDefault breadcrumbs)"

section \<open>The memoisation hook\<close>

text \<open>
  The state kept between renders: the slot of the one \<open>useMemo\<close> call (absent before
  the first render; afterwards the dependency \<open>replay\<close> it was computed for and the
  cached value), and the next unused array reference.
\<close>

record HookState =
  memo :: "(addr option \<times> RawSpan jsarray option) option"
  next_ref :: addr

definition initial_hooks :: HookState where
  "initial_hooks = \<lparr>memo = None, next_ref = 0\<rparr>"

text \<open>
  The callback of the source's \<open>useMemo\<close>:
  \<open>replay?.getRawSpans().filter(replay.isMemorySpan)\<close>. \<open>filter\<close> builds a new
  array, so the result has a reference no earlier array has.
\<close>

definition memorySpans_callback ::
  "(addr \<Rightarrow> ReplayReader) \<Rightarrow> addr option \<Rightarrow> HookState \<Rightarrow> RawSpan jsarray option \<times> HookState" where
  "memorySpans_callback heap replay st =
     (case replay of
        None \<Rightarrow> (None, st)
      | Some a \<Rightarrow>
          (Some \<lparr>array_ref = next_ref st,
                 elems = filter (isMemorySpan (heap a)) (getRawSpans (heap a))\<rparr>,
           st\<lparr>next_ref := Suc (next_ref st)\<rparr>))"

text \<open>
  Modelled from the spec: \<open>useMemo\<close> is imported from the UI framework and is not
  among the sources. Section 4.2 of the specification gives its contract: the
  cached value is returned while the dependency (the source record's identity) is
  unchanged, a dependency of new identity triggers a recomputation, and the first
  access computes. The Boolean returned says whether the callback ran.
\<close>

definition useMemo ::
  "(HookState \<Rightarrow> RawSpan jsarray option \<times> HookState) \<Rightarrow> addr option \<Rightarrow> HookState
     \<Rightarrow> (RawSpan jsarray option \<times> bool) \<times> HookState" where
  "useMemo callback dep st =
     (let recompute = (let (v, st') = callback st in ((v, True), st'\<lparr>memo := Some (dep, v)\<rparr>))
      in case memo st of
           None \<Rightarrow> recompute
         | Some (d, v) \<Rightarrow> if d = dep then ((v, False), st) else recompute)"

section \<open>The dispatcher\<close>

text \<open>
  The operations one render performs, in the order it performs them:
  \<open>ResolveActiveKey\<close> is the call \<open>useActiveTabFromLocation()\<close> (line 31),
  \<open>ComputeDerived MemorySubset\<close> the filter by \<open>isMemorySpan\<close> (line 39), which runs when
  the \<open>useMemo\<close> callback runs and \<open>replay\<close> is not \<open>null\<close> (\<open>replay?.\<close> stops otherwise),
  \<open>ReadinessCheck\<close> the test \<open>!replay || !memorySpans\<close> (line 42),
  \<open>PanelLookup\<close> the \<open>switch (active)\<close> (line 48),
  \<open>ComputeDerived ConsoleSubset\<close> the call of \<open>getBreadcrumbsByCategory\<close> (line 50) and
  \<open>ComputeDerived NonMemorySubset\<close> the filter by \<open>isNotMemorySpan\<close> (lines 63 to 71).
\<close>

datatype derived_input = MemorySubset | NonMemorySubset | ConsoleSubset

datatype step =
    ResolveActiveKey
  | ComputeDerived derived_input
  | ReadinessCheck
  | PanelLookup

record Render =
  rendered :: View
  hooks_after :: HookState
  steps :: "step list"

text \<open>
  One render of \<open>FocusArea\<close>: \<open>replay\<close> is the property of that name, a reference into
  \<open>heap\<close> or \<open>null\<close>; \<open>st\<close> is the hook state the previous render left. The hooks are
  called first, then comes the guard on \<open>replay\<close> and \<open>memorySpans\<close>, then
  \<open>replay.getEvent()\<close> and the \<open>switch\<close> on the active tab, whose \<open>default\<close> returns
  \<open>null\<close>.
\<close>

definition FocusArea ::
  "Imports \<Rightarrow> (addr \<Rightarrow> ReplayReader) \<Rightarrow> HookState \<Rightarrow> addr option \<Rightarrow> Render" where
  "FocusArea imports heap st replay =
     (let active = useActiveTabFromLocation imports;
          ctx = useReplayContext imports;
          organization = useOrganization imports;
          ((memorySpans, computed), st') = useMemo (memorySpans_callback heap replay) replay st;
          before = [ResolveActiveKey]
                   @ (if computed \<and> replay \<noteq> None then [ComputeDerived MemorySubset] else [])
                   @ [ReadinessCheck]
      in case (replay, memorySpans) of
           (Some a, Some spans) \<Rightarrow>
             (let event = getEvent (heap a) in
              if active = ''console'' then
                \<lparr>rendered = Console (getBreadcrumbsByCategory (isBreadcrumbTypeDefault imports)
                                       (getRawCrumbs (heap a)) [''console''])
                                     (event_startTimestamp event),
                 hooks_after = st',
                 steps = before @ [PanelLookup, ComputeDerived ConsoleSubset]\<rparr>
              else if active = ''network'' then
                (let nonMemorySpansEntry =
                       \<lparr>entry_type = SPANS,
                        entry_data =
                          map (\<lambda>span.
                                 let startTimestamp = js_get span ''startTimestamp'';
                                     endTimestamp = js_get span ''endTimestamp'';
                                     rest = AList.delete ''endTimestamp''
                                              (AList.delete ''startTimestamp'' span)
                                 in AList.update ''parent_span_id'' (JStr ''replay_network_trace'')
                                      (AList.update ''start_timestamp'' startTimestamp
                                         (AList.update ''timestamp'' endTimestamp rest)))
                            (filter (isNotMemorySpan (heap a)) (getRawSpans (heap a)))\<rparr>;
                     performanceEvent =
                       \<lparr>pe_event = event,
                        contexts_trace =
                          \<lparr>trace_type = ''trace'', trace_op = ''Network'',
                           trace_description = ''WIP'',
                           trace_span_id = ''replay_network_trace'',
                           trace_status = ''ok''\<rparr>,
                        entries = [nonMemorySpansEntry]\<rparr>
                 in \<lparr>rendered = Spans organization performanceEvent,
                     hooks_after = st',
                     steps = before @ [PanelLookup, ComputeDerived NonMemorySubset]\<rparr>)
              else if active = ''trace'' then
                \<lparr>rendered = Trace organization event, hooks_after = st',
                 steps = before @ [PanelLookup]\<rparr>
              else if active = ''issues'' then
                \<lparr>rendered = IssueList (event_id event) (event_projectID event),
                 hooks_after = st', steps = before @ [PanelLookup]\<rparr>
              else if active = ''tags'' then
                \<lparr>rendered = TagsTable event '''', hooks_after = st',
                 steps = before @ [PanelLookup]\<rparr>
              else if active = ''memory'' then
                \<lparr>rendered = MemoryChart
                   \<lparr>mc_currentTime = currentTime ctx,
                    mc_currentHoverTime = currentHoverTime ctx,
                    mc_memorySpans = spans,
                    mc_setCurrentTime = setCurrentTime ctx,
                    mc_setCurrentHoverTime = setCurrentHoverTime ctx,
                    mc_startTimestamp = event_startTimestamp event\<rparr>,
                 hooks_after = st', steps = before @ [PanelLookup]\<rparr>
              else
                \<lparr>rendered = RenderNull, hooks_after = st', steps = before @ [PanelLookup]\<rparr>)
         | _ \<Rightarrow>
             \<lparr>rendered = Placeholder ''150px'', hooks_after = st', steps = before\<rparr>)"

subsection \<open>Consistency of the memoisation slot\<close>

text \<open>
  The slot is consistent with a heap of replay readers when a value cached for
  \<open>null\<close> is \<open>undefined\<close>, and a value cached for a reader is an array that was
  allocated earlier and holds the reader's memory spans. The initial state is
  consistent and every render keeps the state consistent (\<open>memo_ok_initial\<close>,
  \<open>memo_ok_FocusArea\<close>, \<open>memo_ok_renders\<close> below), so it holds whenever the
  component renders, as long as the replay readers themselves are not changed in
  place.
\<close>

definition memo_ok :: "(addr \<Rightarrow> ReplayReader) \<Rightarrow> HookState \<Rightarrow> bool" where
  "memo_ok heap st =
     (case memo st of
        None \<Rightarrow> True
      | Some (None, v) \<Rightarrow> v = None
      | Some (Some a, None) \<Rightarrow> False
      | Some (Some a, Some arr) \<Rightarrow>
          array_ref arr < next_ref st \<and>
          elems arr = filter (isMemorySpan (heap a)) (getRawSpans (heap a)))"

text \<open>
  The state after a sequence of renders of one mounted component, each with its own
  hook values and \<open>replay\<close> property, over a heap whose replay readers do not change.
\<close>

definition renders :: "(addr \<Rightarrow> ReplayReader) \<Rightarrow> (Imports \<times> addr option) list \<Rightarrow> HookState" where
  "renders heap rs =
     fold (\<lambda>(imports, replay) st. hooks_after (FocusArea imports heap st replay)) rs initial_hooks"

section \<open>The widget library\<close>

text \<open>
  The second component of the file, \<open>WidgetLibrary\<close>. The enumerations list the
  members the source names and one constructor for all the others.
\<close>

datatype WidgetType = RELEASE | OtherWidgetType string

datatype DisplayType = TOP_N | TABLE | OtherDisplayType string

typedecl WidgetQuery

record WidgetTemplate =
  title :: string
  displayType :: DisplayType
  widgetType :: "WidgetType option"
  queries :: "WidgetQuery list"

record NormalizeQueriesArgs =
  nq_displayType :: DisplayType
  nq_queries :: "WidgetQuery list"
  nq_widgetBuilderNewDesign :: bool
  nq_widgetType :: "WidgetType option"

text \<open>What the component imports and the sources do not define.\<close>

record WidgetLibraryImports =
  getTopNConvertedDefaultWidgets :: "WidgetTemplate list"
  normalizeQueries :: "NormalizeQueriesArgs \<Rightarrow> WidgetQuery list"
  getColorPalette :: "int \<Rightarrow> string list"

record WidgetLibraryProps =
  bypassOverwriteModal :: bool
  wl_organization :: Organization
  widgetBuilderNewDesign :: bool

text \<open>
  A click's effects. \<open>OnWidgetSelect widget\<close> is the call \<open>onWidgetSelect(widget)\<close>;
  \<open>Invoke\<close> runs it now, \<open>OpenWidgetBuilderOverwriteModal\<close> opens the modal with it as
  \<open>onConfirm\<close>, with the widget and with the icon colour.
\<close>

datatype callback = OnWidgetSelect WidgetTemplate

datatype effect =
    Invoke callback
  | OpenWidgetBuilderOverwriteModal callback WidgetTemplate "string option"

definition getLibrarySelectionHandler ::
  "bool \<Rightarrow> WidgetTemplate \<Rightarrow> string option \<Rightarrow> effect list" where
  "getLibrarySelectionHandler bypass widget iconColor =
     (if bypass then [Invoke (OnWidgetSelect widget)]
      else [OpenWidgetBuilderOverwriteModal (OnWidgetSelect widget) widget iconColor])"

text \<open>Reading an array at an index: \<open>undefined\<close> out of range.\<close>

definition js_index :: "'a list \<Rightarrow> nat \<Rightarrow> 'a option" where
  "js_index xs i = (if i < length xs then Some (xs ! i) else None)"

record Card =
  card_key :: string
  card_widget :: WidgetTemplate
  card_iconColor :: "string option"
  card_onClick :: "effect list"

definition WidgetLibrary :: "WidgetLibraryImports \<Rightarrow> WidgetLibraryProps \<Rightarrow> Card list" where
  "WidgetLibrary imports props =
     (let defaultWidgets0 = getTopNConvertedDefaultWidgets imports;
          defaultWidgets =
            (if \<not> (''dashboards-releases'' \<in> set (features (wl_organization props)))
             then filter (\<lambda>widget. \<not> (widgetType widget = Some RELEASE)) defaultWidgets0
             else defaultWidgets0)
      in map (\<lambda>(index, widget).
                let iconColor =
                      js_index (getColorPalette imports (int (length defaultWidgets) - 2)) index;
                    displayType' =
                      (if widgetBuilderNewDesign props \<and> displayType widget = TOP_N
                       then TABLE else displayType widget);
                    normalizedQueries =
                      normalizeQueries imports
                        \<lparr>nq_displayType = displayType',
                         nq_queries = queries widget,
                         nq_widgetBuilderNewDesign = widgetBuilderNewDesign props,
                         nq_widgetType = widgetType widget\<rparr>;
                    newWidget = widget\<lparr>displayType := displayType', queries := normalizedQueries\<rparr>
                in \<lparr>card_key = title widget,
                    card_widget = newWidget,
                    card_iconColor = iconColor,
                    card_onClick =
                      getLibrarySelectionHandler (bypassOverwriteModal props) newWidget iconColor\<rparr>)
           (enumerate 0 defaultWidgets))"

section \<open>Example inputs\<close>

text \<open>
  The breadcrumbs and spans of the specification's scenarios: a console and a network
  breadcrumb, a memory and an http span.
\<close>

definition example_crumbs :: "RawCrumb list" where
  "example_crumbs =
     [\<lparr>crumb_type = ''default'', category = Some ''console'', message = ''x''\<rparr>,
      \<lparr>crumb_type = ''default'', category = Some ''network'', message = ''y''\<rparr>]"

definition example_memory_span :: RawSpan where
  "example_memory_span =
     [(''kind'', JStr ''memory''), (''value'', JNum 1),
      (''startTimestamp'', JNum 1), (''endTimestamp'', JNum 2)]"

text \<open>The second span has a \<open>parent_span_id\<close> of its own.\<close>

definition example_http_span :: RawSpan where
  "example_http_span =
     [(''kind'', JStr ''http''), (''parent_span_id'', JStr ''p0''), (''value'', JNum 2),
      (''startTimestamp'', JNum 3), (''endTimestamp'', JNum 4)]"

definition example_spans :: "RawSpan list" where
  "example_spans = [example_memory_span, example_http_span]"

definition example_replay :: ReplayReader where
  "example_replay =
     \<lparr>getEvent = \<lparr>event_id = ''e1'', event_projectID = ''p1'', event_startTimestamp = 0\<rparr>,
      getRawCrumbs = example_crumbs,
      getRawSpans = example_spans,
      isMemorySpan = (\<lambda>s. js_get s ''kind'' = JStr ''memory''),
      isNotMemorySpan = (\<lambda>s. js_get s ''kind'' \<noteq> JStr ''memory'')\<rparr>"

definition example_heap :: "addr \<Rightarrow> ReplayReader" where
  "example_heap a = example_replay"

definition example_imports :: "string \<Rightarrow> Imports" where
  "example_imports tab =
     \<lparr>isBreadcrumbTypeDefault = (\<lambda>b. crumb_type b = ''default''),
      useActiveTabFromLocation = tab,
      useReplayContext =
        \<lparr>currentTime = 0, currentHoverTime = None, setCurrentTime = 0,
         setCurrentHoverTime = 1\<rparr>,
      useOrganization = \<lparr>features = []\<rparr>\<rparr>"

text \<open>Two default widgets, the second of the release type; queries are left as they are.\<close>

definition example_widgets :: "WidgetTemplate list" where
  "example_widgets =
     [\<lparr>title = ''Errors'', displayType = TOP_N, widgetType = Some (OtherWidgetType ''discover''),
       queries = []\<rparr>,
      \<lparr>title = ''Crash rates'', displayType = TABLE, widgetType = Some RELEASE, queries = []\<rparr>]"

definition example_library :: WidgetLibraryImports where
  "example_library =
     \<lparr>getTopNConvertedDefaultWidgets = example_widgets,
      normalizeQueries = nq_queries,
      getColorPalette = (\<lambda>n. [''#444674'', ''#895289''])\<rparr>"

definition example_props :: "string list \<Rightarrow> bool \<Rightarrow> WidgetLibraryProps" where
  "example_props fs bypass =
     \<lparr>bypassOverwriteModal = bypass, wl_organization = \<lparr>features = fs\<rparr>,
      widgetBuilderNewDesign = True\<rparr>"

section \<open>Properties of the dispatcher\<close>

lemma useMemo_cases:
  "useMemo callback dep st =
     (if \<exists>v. memo st = Some (dep, v) then ((snd (the (memo st)), False), st)
      else ((fst (callback st), True), (snd (callback st))\<lparr>memo := Some (dep, fst (callback st))\<rparr>))"
  by (auto simp: useMemo_def Let_def split: option.splits prod.splits)

lemma memo_ok_initial: "memo_ok heap initial_hooks"
  by (simp add: memo_ok_def initial_hooks_def)

lemma useMemo_available:
  assumes "memo_ok heap st"
  shows "\<exists>r. fst (fst (useMemo (memorySpans_callback heap (Some a)) (Some a) st)) =
           Some \<lparr>array_ref = r, elems = filter (isMemorySpan (heap a)) (getRawSpans (heap a))\<rparr>"
proof (cases "\<exists>v. memo st = Some (Some a, v)")
  case True
  then obtain v where m: "memo st = Some (Some a, v)" by blast
  with assms obtain arr where v: "v = Some arr"
    and e: "elems arr = filter (isMemorySpan (heap a)) (getRawSpans (heap a))"
    by (cases v) (auto simp: memo_ok_def)
  have "arr = \<lparr>array_ref = array_ref arr, elems = filter (isMemorySpan (heap a)) (getRawSpans (heap a))\<rparr>"
    using e by simp
  then show ?thesis using m v by (auto simp: useMemo_cases)
next
  case False
  then show ?thesis by (simp add: useMemo_cases memorySpans_callback_def)
qed

lemma memo_ok_useMemo:
  assumes "memo_ok heap st"
  shows "memo_ok heap (snd (useMemo (memorySpans_callback heap replay) replay st))"
proof (cases "\<exists>v. memo st = Some (replay, v)")
  case True
  then show ?thesis using assms by (simp add: useMemo_cases)
next
  case False
  then show ?thesis
    by (cases replay) (simp_all add: useMemo_cases memorySpans_callback_def memo_ok_def)
qed

lemma hooks_after_FocusArea:
  "hooks_after (FocusArea imports heap st replay) =
     snd (useMemo (memorySpans_callback heap replay) replay st)"
  by (simp add: FocusArea_def Let_def split: prod.splits option.splits)

lemma memo_ok_FocusArea:
  "memo_ok heap st \<Longrightarrow> memo_ok heap (hooks_after (FocusArea imports heap st replay))"
  by (simp add: hooks_after_FocusArea memo_ok_useMemo)

lemma memo_ok_renders: "memo_ok heap (renders heap rs)"
proof -
  have "memo_ok heap
          (fold (\<lambda>(imports, replay) st. hooks_after (FocusArea imports heap st replay)) rs st)"
    if "memo_ok heap st" for st
    using that
  proof (induction rs arbitrary: st)
    case Nil
    then show ?case by simp
  next
    case (Cons r rs)
    then show ?case by (cases r) (simp add: memo_ok_FocusArea)
  qed
  then show ?thesis by (simp add: renders_def memo_ok_initial)
qed

lemma FocusArea_ready:
  assumes "fst (fst (useMemo (memorySpans_callback heap (Some a)) (Some a) st)) = Some spans"
  shows "rendered (FocusArea imports heap st (Some a)) =
     (let active = useActiveTabFromLocation imports; event = getEvent (heap a) in
      if active = ''console'' then
        Console (getBreadcrumbsByCategory (isBreadcrumbTypeDefault imports)
                   (getRawCrumbs (heap a)) [''console'']) (event_startTimestamp event)
      else if active = ''network'' then
        Spans (useOrganization imports)
          \<lparr>pe_event = event,
           contexts_trace =
             \<lparr>trace_type = ''trace'', trace_op = ''Network'', trace_description = ''WIP'',
              trace_span_id = ''replay_network_trace'', trace_status = ''ok''\<rparr>,
           entries =
             [\<lparr>entry_type = SPANS,
               entry_data =
                 map (\<lambda>span. AList.update ''parent_span_id'' (JStr ''replay_network_trace'')
                               (AList.update ''start_timestamp'' (js_get span ''startTimestamp'')
                                  (AList.update ''timestamp'' (js_get span ''endTimestamp'')
                                     (AList.delete ''endTimestamp''
                                        (AList.delete ''startTimestamp'' span)))))
                   (filter (isNotMemorySpan (heap a)) (getRawSpans (heap a)))\<rparr>]\<rparr>
      else if active = ''trace'' then Trace (useOrganization imports) event
      else if active = ''issues'' then IssueList (event_id event) (event_projectID event)
      else if active = ''tags'' then TagsTable event ''''
      else if active = ''memory'' then
        MemoryChart
          \<lparr>mc_currentTime = currentTime (useReplayContext imports),
           mc_currentHoverTime = currentHoverTime (useReplayContext imports),
           mc_memorySpans = spans,
           mc_setCurrentTime = setCurrentTime (useReplayContext imports),
           mc_setCurrentHoverTime = setCurrentHoverTime (useReplayContext imports),
           mc_startTimestamp = event_startTimestamp event\<rparr>
      else RenderNull)"
  using assms by (auto simp: FocusArea_def Let_def split: prod.splits)

text \<open>
  C1. When the replay is \<open>null\<close>, \<open>FocusArea\<close> renders the placeholder of height
  150px, whatever the active tab, the other hook values, the heap and the state of
  the memoisation slot are.
\<close>

theorem FocusArea_no_replay_placeholder:
  "rendered (FocusArea imports heap st None) = Placeholder ''150px''"
  by (simp add: FocusArea_def Let_def split: prod.splits option.splits)

text \<open>
  C2. With a replay available and the memoisation slot consistent, an active tab that
  is none of \<open>console\<close>, \<open>network\<close>, \<open>trace\<close>, \<open>issues\<close>, \<open>tags\<close>,
  \<open>memory\<close> makes \<open>FocusArea\<close> return \<open>null\<close> (the \<open>default\<close> branch). The
  model has no exception branch, as the source has no \<open>throw\<close> and no failing
  access on this path; the result is a value.
\<close>

theorem FocusArea_unknown_key_null:
  assumes "memo_ok heap st"
    and "useActiveTabFromLocation imports \<notin>
           {''console'', ''network'', ''trace'', ''issues'', ''tags'', ''memory''}"
  shows "rendered (FocusArea imports heap st (Some a)) = RenderNull"
proof -
  from useMemo_available [OF assms(1)] obtain r where
    "fst (fst (useMemo (memorySpans_callback heap (Some a)) (Some a) st)) =
       Some \<lparr>array_ref = r, elems = filter (isMemorySpan (heap a)) (getRawSpans (heap a))\<rparr>"
    by blast
  from FocusArea_ready [OF this] assms(2) show ?thesis by (simp add: Let_def)
qed

theorem FocusArea_unknown_key_null_witness:
  "memo_ok example_heap initial_hooks \<and>
   useActiveTabFromLocation (example_imports ''unknown-tab'') \<notin>
     {''console'', ''network'', ''trace'', ''issues'', ''tags'', ''memory''} \<and>
   rendered (FocusArea (example_imports ''unknown-tab'') example_heap initial_hooks (Some 0))
     = RenderNull"
proof -
  have h1: "memo_ok example_heap initial_hooks" by (rule memo_ok_initial)
  have h2: "useActiveTabFromLocation (example_imports ''unknown-tab'') \<notin>
     {''console'', ''network'', ''trace'', ''issues'', ''tags'', ''memory''}"
    by (simp add: example_imports_def)
  from FocusArea_unknown_key_null [OF h1 h2, of 0] h1 h2 show ?thesis by blast
qed

text \<open>
  C3. With the active tab \<open>memory\<close> and a replay available, the memory chart is
  rendered and the array it receives as \<open>memorySpans\<close> holds exactly the raw spans
  of the replay that satisfy \<open>isMemorySpan\<close>, in their order: every such span is in
  it and no other span is.
\<close>

theorem FocusArea_memory_spans:
  assumes "memo_ok heap st" and "useActiveTabFromLocation imports = ''memory''"
  shows "\<exists>props. rendered (FocusArea imports heap st (Some a)) = MemoryChart props \<and>
           elems (mc_memorySpans props) = filter (isMemorySpan (heap a)) (getRawSpans (heap a)) \<and>
           set (elems (mc_memorySpans props)) =
             {s \<in> set (getRawSpans (heap a)). isMemorySpan (heap a) s}"
proof -
  from useMemo_available [OF assms(1)] obtain r where
    "fst (fst (useMemo (memorySpans_callback heap (Some a)) (Some a) st)) =
       Some \<lparr>array_ref = r, elems = filter (isMemorySpan (heap a)) (getRawSpans (heap a))\<rparr>"
    by blast
  from FocusArea_ready [OF this] assms(2) show ?thesis by (simp add: Let_def)
qed

theorem FocusArea_memory_spans_witness:
  "memo_ok example_heap initial_hooks \<and>
   useActiveTabFromLocation (example_imports ''memory'') = ''memory'' \<and>
   (\<exists>props. rendered (FocusArea (example_imports ''memory'') example_heap initial_hooks (Some 0))
              = MemoryChart props \<and>
            elems (mc_memorySpans props) =
              [example_memory_span])"
proof -
  have h1: "memo_ok example_heap initial_hooks" by (rule memo_ok_initial)
  have h2: "useActiveTabFromLocation (example_imports ''memory'') = ''memory''"
    by (simp add: example_imports_def)
  have "filter (isMemorySpan (example_heap 0)) (getRawSpans (example_heap 0)) =
     [example_memory_span]"
    by (simp add: example_heap_def example_replay_def example_spans_def
          example_memory_span_def example_http_span_def js_get_def)
  with FocusArea_memory_spans [OF h1 h2, of 0] h1 h2 show ?thesis by auto
qed

text \<open>
  C4. With the active tab \<open>console\<close> and a replay available, the console panel is
  rendered and every breadcrumb it receives is one of the replay's raw breadcrumbs
  and has the category \<open>console\<close>. For a replay whose breadcrumbs are one of
  category \<open>console\<close> followed by one of category \<open>network\<close>, the panel never
  receives the second, and receives the first (when it is of the default breadcrumb
  type, which \<open>getBreadcrumbsByCategory\<close> also requires).
\<close>

theorem FocusArea_console_breadcrumbs:
  assumes "memo_ok heap st" and "useActiveTabFromLocation imports = ''console''"
  shows "\<exists>bs ts. rendered (FocusArea imports heap st (Some a)) = Console bs ts \<and>
           (\<forall>b \<in> set bs. b \<in> set (getRawCrumbs (heap a)) \<and> category b = Some ''console'') \<and>
           (\<forall>c1 c2. getRawCrumbs (heap a) = [c1, c2] \<and> category c1 = Some ''console'' \<and>
                     category c2 = Some ''network''
                \<longrightarrow> bs = filter (isBreadcrumbTypeDefault imports) [c1])"
proof -
  from useMemo_available [OF assms(1)] obtain r where
    "fst (fst (useMemo (memorySpans_callback heap (Some a)) (Some a) st)) =
       Some \<lparr>array_ref = r, elems = filter (isMemorySpan (heap a)) (getRawSpans (heap a))\<rparr>"
    by blast
  from FocusArea_ready [OF this] assms(2)
  have "rendered (FocusArea imports heap st (Some a)) =
          Console (getBreadcrumbsByCategory (isBreadcrumbTypeDefault imports)
                     (getRawCrumbs (heap a)) [''console''])
                  (event_startTimestamp (getEvent (heap a)))"
    by (simp add: Let_def)
  moreover have "\<forall>b \<in> set (getBreadcrumbsByCategory (isBreadcrumbTypeDefault imports)
                     (getRawCrumbs (heap a)) [''console'']).
                   b \<in> set (getRawCrumbs (heap a)) \<and> category b = Some ''console''"
    by (auto simp: getBreadcrumbsByCategory_def split: option.splits if_splits)
  moreover have "\<forall>c1 c2. getRawCrumbs (heap a) = [c1, c2] \<and> category c1 = Some ''console'' \<and>
                     category c2 = Some ''network''
                \<longrightarrow> getBreadcrumbsByCategory (isBreadcrumbTypeDefault imports)
                     (getRawCrumbs (heap a)) [''console''] =
                    filter (isBreadcrumbTypeDefault imports) [c1]"
    by (simp add: getBreadcrumbsByCategory_def)
  ultimately show ?thesis by blast
qed

theorem FocusArea_console_breadcrumbs_witness:
  "memo_ok example_heap initial_hooks \<and>
   useActiveTabFromLocation (example_imports ''console'') = ''console'' \<and>
   getRawCrumbs (example_heap 0) =
     [\<lparr>crumb_type = ''default'', category = Some ''console'', message = ''x''\<rparr>,
      \<lparr>crumb_type = ''default'', category = Some ''network'', message = ''y''\<rparr>] \<and>
   (\<exists>ts. rendered (FocusArea (example_imports ''console'') example_heap initial_hooks (Some 0))
      = Console [\<lparr>crumb_type = ''default'', category = Some ''console'', message = ''x''\<rparr>] ts)"
proof -
  have h1: "memo_ok example_heap initial_hooks" by (rule memo_ok_initial)
  have h2: "useActiveTabFromLocation (example_imports ''console'') = ''console''"
    by (simp add: example_imports_def)
  have h3: "getRawCrumbs (example_heap 0) =
     [\<lparr>crumb_type = ''default'', category = Some ''console'', message = ''x''\<rparr>,
      \<lparr>crumb_type = ''default'', category = Some ''network'', message = ''y''\<rparr>]"
    by (simp add: example_heap_def example_replay_def example_crumbs_def)
  from FocusArea_console_breadcrumbs [OF h1 h2, of 0] obtain bs ts where
    r: "rendered (FocusArea (example_imports ''console'') example_heap initial_hooks (Some 0))
          = Console bs ts"
    and s: "\<forall>c1 c2. getRawCrumbs (example_heap 0) = [c1, c2] \<and> category c1 = Some ''console'' \<and>
                     category c2 = Some ''network''
                \<longrightarrow> bs = filter (isBreadcrumbTypeDefault (example_imports ''console'')) [c1]"
    by blast
  from s h3 have "bs = [\<lparr>crumb_type = ''default'', category = Some ''console'', message = ''x''\<rparr>]"
    by (simp add: example_imports_def)
  with r h1 h2 h3 show ?thesis by blast
qed

lemma built_span:
  fixes raw :: RawSpan
  defines "s \<equiv> AList.update ''parent_span_id'' (JStr ''replay_network_trace'')
                 (AList.update ''start_timestamp'' (js_get raw ''startTimestamp'')
                    (AList.update ''timestamp'' (js_get raw ''endTimestamp'')
                       (AList.delete ''endTimestamp'' (AList.delete ''startTimestamp'' raw))))"
  shows "js_get s ''timestamp'' = js_get raw ''endTimestamp''"
    and "js_get s ''start_timestamp'' = js_get raw ''startTimestamp''"
    and "js_get s ''parent_span_id'' = JStr ''replay_network_trace''"
    and "map_of s ''startTimestamp'' = None"
    and "map_of s ''endTimestamp'' = None"
    and "k \<notin> {''timestamp'', ''start_timestamp'', ''parent_span_id'',
               ''startTimestamp'', ''endTimestamp''} \<Longrightarrow> map_of s k = map_of raw k"
  by (simp_all add: s_def js_get_def update_conv' delete_conv')

text \<open>
  C8. With the active tab \<open>network\<close> and a replay available, the spans view is
  rendered on a synthetic event whose trace context has the span id
  \<open>replay_network_trace\<close> and whose one entry, of type \<open>SPANS\<close>, holds one span
  for each raw span satisfying \<open>isNotMemorySpan\<close>, in order. Of each such span the
  property \<open>timestamp\<close> is the raw span's \<open>endTimestamp\<close>, \<open>start_timestamp\<close> is the
  raw span's \<open>startTimestamp\<close> and \<open>parent_span_id\<close> is \<open>replay_network_trace\<close>, also
  when the raw span has properties of these names itself; it has no \<open>startTimestamp\<close>
  and no \<open>endTimestamp\<close>, and every other property is the raw span's.
\<close>

theorem FocusArea_network_spans:
  assumes "memo_ok heap st" and "useActiveTabFromLocation imports = ''network''"
  shows "\<exists>pe e. rendered (FocusArea imports heap st (Some a)) = Spans (useOrganization imports) pe \<and>
           trace_span_id (contexts_trace pe) = ''replay_network_trace'' \<and>
           entries pe = [e] \<and> entry_type e = SPANS \<and>
           list_all2 (\<lambda>s raw. js_get s ''timestamp'' = js_get raw ''endTimestamp'' \<and>
                                js_get s ''start_timestamp'' = js_get raw ''startTimestamp'' \<and>
                                js_get s ''parent_span_id'' = JStr ''replay_network_trace'' \<and>
                                map_of s ''startTimestamp'' = None \<and>
                                map_of s ''endTimestamp'' = None \<and>
                                (\<forall>k. k \<notin> {''timestamp'', ''start_timestamp'', ''parent_span_id'',
                                           ''startTimestamp'', ''endTimestamp''}
                                   \<longrightarrow> map_of s k = map_of raw k))
             (entry_data e) (filter (isNotMemorySpan (heap a)) (getRawSpans (heap a))) \<and>
           (\<forall>s \<in> set (entry_data e).
              js_get s ''parent_span_id'' = JStr ''replay_network_trace'' \<and>
              (\<exists>raw \<in> set (getRawSpans (heap a)).
                 isNotMemorySpan (heap a) raw \<and>
                 js_get s ''timestamp'' = js_get raw ''endTimestamp'' \<and>
                 js_get s ''start_timestamp'' = js_get raw ''startTimestamp''))"
proof -
  let ?mk = "\<lambda>span. AList.update ''parent_span_id'' (JStr ''replay_network_trace'')
                      (AList.update ''start_timestamp'' (js_get span ''startTimestamp'')
                         (AList.update ''timestamp'' (js_get span ''endTimestamp'')
                            (AList.delete ''endTimestamp'' (AList.delete ''startTimestamp'' span))))"
  let ?raws = "filter (isNotMemorySpan (heap a)) (getRawSpans (heap a))"
  let ?R = "\<lambda>s raw. js_get s ''timestamp'' = js_get raw ''endTimestamp'' \<and>
                      js_get s ''start_timestamp'' = js_get raw ''startTimestamp'' \<and>
                      js_get s ''parent_span_id'' = JStr ''replay_network_trace'' \<and>
                      map_of s ''startTimestamp'' = None \<and>
                      map_of s ''endTimestamp'' = None \<and>
                      (\<forall>k. k \<notin> {''timestamp'', ''start_timestamp'', ''parent_span_id'',
                                 ''startTimestamp'', ''endTimestamp''}
                         \<longrightarrow> map_of s k = map_of raw k)"
  let ?e = "\<lparr>entry_type = SPANS, entry_data = map ?mk ?raws\<rparr>"
  let ?pe = "\<lparr>pe_event = getEvent (heap a),
              contexts_trace =
                \<lparr>trace_type = ''trace'', trace_op = ''Network'', trace_description = ''WIP'',
                 trace_span_id = ''replay_network_trace'', trace_status = ''ok''\<rparr>,
              entries = [?e]\<rparr>"
  from useMemo_available [OF assms(1)] obtain r where
    "fst (fst (useMemo (memorySpans_callback heap (Some a)) (Some a) st)) =
       Some \<lparr>array_ref = r, elems = filter (isMemorySpan (heap a)) (getRawSpans (heap a))\<rparr>"
    by blast
  from FocusArea_ready [OF this] assms(2)
  have v: "rendered (FocusArea imports heap st (Some a)) = Spans (useOrganization imports) ?pe"
    by (simp add: Let_def)
  have one: "?R (?mk raw) raw" for raw
    using built_span [where raw = raw] by blast
  have l: "list_all2 ?R (entry_data ?e) ?raws"
    using one by (simp add: list_all2_map1 list_all2_same)
  have b: "\<forall>s \<in> set (entry_data ?e).
              js_get s ''parent_span_id'' = JStr ''replay_network_trace'' \<and>
              (\<exists>raw \<in> set (getRawSpans (heap a)).
                 isNotMemorySpan (heap a) raw \<and>
                 js_get s ''timestamp'' = js_get raw ''endTimestamp'' \<and>
                 js_get s ''start_timestamp'' = js_get raw ''startTimestamp'')"
  proof
    fix s assume "s \<in> set (entry_data ?e)"
    then obtain raw where raw: "raw \<in> set (getRawSpans (heap a))" "isNotMemorySpan (heap a) raw"
      and s: "s = ?mk raw"
      by auto
    from one [of raw] s raw show
      "js_get s ''parent_span_id'' = JStr ''replay_network_trace'' \<and>
       (\<exists>raw \<in> set (getRawSpans (heap a)).
          isNotMemorySpan (heap a) raw \<and>
          js_get s ''timestamp'' = js_get raw ''endTimestamp'' \<and>
          js_get s ''start_timestamp'' = js_get raw ''startTimestamp'')"
      by blast
  qed
  have t: "trace_span_id (contexts_trace ?pe) = ''replay_network_trace''" by simp
  have en: "entries ?pe = [?e]" by simp
  have ty: "entry_type ?e = SPANS" by simp
  show ?thesis
    by (rule exI [of _ "?pe"], rule exI [of _ "?e"]) (intro conjI v t en ty l b)
qed

theorem FocusArea_network_spans_witness:
  "memo_ok example_heap initial_hooks \<and>
   useActiveTabFromLocation (example_imports ''network'') = ''network'' \<and>
   js_get example_http_span ''parent_span_id'' = JStr ''p0'' \<and>
   (\<exists>pe s. rendered (FocusArea (example_imports ''network'') example_heap initial_hooks (Some 0))
            = Spans (useOrganization (example_imports ''network'')) pe \<and>
          trace_span_id (contexts_trace pe) = ''replay_network_trace'' \<and>
          map entry_data (entries pe) = [[s]] \<and>
          js_get s ''parent_span_id'' = JStr ''replay_network_trace'' \<and>
          js_get s ''timestamp'' = JNum 4 \<and>
          js_get s ''start_timestamp'' = JNum 3 \<and>
          js_get s ''kind'' = JStr ''http'' \<and>
          js_get s ''endTimestamp'' = JUndefined)"
proof -
  have h1: "memo_ok example_heap initial_hooks" by (rule memo_ok_initial)
  have h2: "useActiveTabFromLocation (example_imports ''network'') = ''network''"
    by (simp add: example_imports_def)
  have h3: "js_get example_http_span ''parent_span_id'' = JStr ''p0''"
    by (simp add: example_http_span_def js_get_def)
  have f: "filter (isNotMemorySpan (example_heap 0)) (getRawSpans (example_heap 0)) =
             [example_http_span]"
    by (simp add: example_heap_def example_replay_def example_spans_def
          example_memory_span_def example_http_span_def js_get_def)
  from FocusArea_network_spans [OF h1 h2, of 0] obtain pe e where
    r: "rendered (FocusArea (example_imports ''network'') example_heap initial_hooks (Some 0))
          = Spans (useOrganization (example_imports ''network'')) pe"
    and t: "trace_span_id (contexts_trace pe) = ''replay_network_trace''"
    and e: "entries pe = [e]"
    and l: "list_all2 (\<lambda>s raw. js_get s ''timestamp'' = js_get raw ''endTimestamp'' \<and>
                                js_get s ''start_timestamp'' = js_get raw ''startTimestamp'' \<and>
                                js_get s ''parent_span_id'' = JStr ''replay_network_trace'' \<and>
                                map_of s ''startTimestamp'' = None \<and>
                                map_of s ''endTimestamp'' = None \<and>
                                (\<forall>k. k \<notin> {''timestamp'', ''start_timestamp'', ''parent_span_id'',
                                           ''startTimestamp'', ''endTimestamp''}
                                   \<longrightarrow> map_of s k = map_of raw k))
             (entry_data e) (filter (isNotMemorySpan (example_heap 0)) (getRawSpans (example_heap 0)))"
    by blast
  from l f obtain s where d: "entry_data e = [s]"
    and s1: "js_get s ''timestamp'' = js_get example_http_span ''endTimestamp''"
    and s2: "js_get s ''start_timestamp'' = js_get example_http_span ''startTimestamp''"
    and s3: "js_get s ''parent_span_id'' = JStr ''replay_network_trace''"
    and s4: "map_of s ''endTimestamp'' = None"
    and s5: "\<forall>k. k \<notin> {''timestamp'', ''start_timestamp'', ''parent_span_id'',
                      ''startTimestamp'', ''endTimestamp''}
               \<longrightarrow> map_of s k = map_of example_http_span k"
    by (auto simp: list_all2_Cons2)
  from s1 have t1: "js_get s ''timestamp'' = JNum 4"
    by (simp add: example_http_span_def js_get_def)
  from s2 have t2: "js_get s ''start_timestamp'' = JNum 3"
    by (simp add: example_http_span_def js_get_def)
  from s5 have "map_of s ''kind'' = map_of example_http_span ''kind''" by simp
  then have t3: "js_get s ''kind'' = JStr ''http''"
    by (simp add: example_http_span_def js_get_def)
  from s4 have t4: "js_get s ''endTimestamp'' = JUndefined" by (simp add: js_get_def)
  from r t e d s3 t1 t2 t3 t4 have c:
    "rendered (FocusArea (example_imports ''network'') example_heap initial_hooks (Some 0))
            = Spans (useOrganization (example_imports ''network'')) pe \<and>
          trace_span_id (contexts_trace pe) = ''replay_network_trace'' \<and>
          map entry_data (entries pe) = [[s]] \<and>
          js_get s ''parent_span_id'' = JStr ''replay_network_trace'' \<and>
          js_get s ''timestamp'' = JNum 4 \<and>
          js_get s ''start_timestamp'' = JNum 3 \<and>
          js_get s ''kind'' = JStr ''http'' \<and>
          js_get s ''endTimestamp'' = JUndefined"
    by simp
  have "\<exists>pe s. rendered (FocusArea (example_imports ''network'') example_heap initial_hooks (Some 0))
            = Spans (useOrganization (example_imports ''network'')) pe \<and>
          trace_span_id (contexts_trace pe) = ''replay_network_trace'' \<and>
          map entry_data (entries pe) = [[s]] \<and>
          js_get s ''parent_span_id'' = JStr ''replay_network_trace'' \<and>
          js_get s ''timestamp'' = JNum 4 \<and>
          js_get s ''start_timestamp'' = JNum 3 \<and>
          js_get s ''kind'' = JStr ''http'' \<and>
          js_get s ''endTimestamp'' = JUndefined"
    by (rule exI [of _ pe], rule exI [of _ s]) (rule c)
  with h1 h2 h3 show ?thesis by blast
qed

text \<open>
  The spans built for the example replay, property by property: the http span's own
  \<open>parent_span_id\<close> is replaced where it stands, the two timestamps are appended under
  their new names.
\<close>

lemma FocusArea_network_example:
  "\<exists>pe. rendered (FocusArea (example_imports ''network'') example_heap initial_hooks (Some 0))
           = Spans (useOrganization (example_imports ''network'')) pe \<and>
         map entry_data (entries pe) =
           [[[(''kind'', JStr ''http''), (''parent_span_id'', JStr ''replay_network_trace''),
              (''value'', JNum 2), (''timestamp'', JNum 4), (''start_timestamp'', JNum 3)]]]"
proof -
  have u0: "fst (fst (useMemo (memorySpans_callback example_heap (Some 0)) (Some 0) initial_hooks)) =
     Some \<lparr>array_ref = 0,
            elems = filter (isMemorySpan (example_heap 0)) (getRawSpans (example_heap 0))\<rparr>"
    by (simp add: useMemo_def memorySpans_callback_def initial_hooks_def)
  have f: "filter (isNotMemorySpan (example_heap 0)) (getRawSpans (example_heap 0)) =
             [example_http_span]"
    by (simp add: example_heap_def example_replay_def example_spans_def
          example_memory_span_def example_http_span_def js_get_def)
  have m: "AList.update ''parent_span_id'' (JStr ''replay_network_trace'')
             (AList.update ''start_timestamp'' (js_get example_http_span ''startTimestamp'')
                (AList.update ''timestamp'' (js_get example_http_span ''endTimestamp'')
                   (AList.delete ''endTimestamp''
                      (AList.delete ''startTimestamp'' example_http_span)))) =
           [(''kind'', JStr ''http''), (''parent_span_id'', JStr ''replay_network_trace''),
            (''value'', JNum 2), (''timestamp'', JNum 4), (''start_timestamp'', JNum 3)]"
    by (simp add: example_http_span_def js_get_def AList.delete_eq)
  show ?thesis
    using FocusArea_ready [OF u0, of "example_imports ''network''"]
    by (simp add: Let_def f m example_imports_def)
qed

section \<open>Properties of the breadcrumb filter\<close>

text \<open>
  C9. \<open>getBreadcrumbsByCategory\<close> keeps, in order, the breadcrumbs that satisfy
  \<open>isBreadcrumbTypeDefault\<close> and whose category, read as the empty string when
  absent, is one of the requested categories. So a breadcrumb that is not of the
  default type is never in the result, whatever its category, and a breadcrumb
  without category is in the result exactly when it is of the default type and the
  empty string is requested.
\<close>

theorem getBreadcrumbsByCategory_type_and_category:
  "getBreadcrumbsByCategory isDefault breadcrumbs categories =
     filter (\<lambda>b. isDefault b \<and> (case category b of None \<Rightarrow> '''' | Some c \<Rightarrow> c) \<in> set categories)
       breadcrumbs \<and>
   (\<forall>b. \<not> isDefault b \<longrightarrow> b \<notin> set (getBreadcrumbsByCategory isDefault breadcrumbs categories)) \<and>
   (\<forall>b. category b = None \<longrightarrow>
        (b \<in> set (getBreadcrumbsByCategory isDefault breadcrumbs categories) \<longleftrightarrow>
         b \<in> set breadcrumbs \<and> isDefault b \<and> '''' \<in> set categories))"
proof -
  have norm: "(case x of None \<Rightarrow> '''' | Some c \<Rightarrow> if c = '''' then '''' else c) =
              (case x of None \<Rightarrow> '''' | Some c \<Rightarrow> c)" for x :: "string option"
    by (simp split: option.splits)
  have eq: "getBreadcrumbsByCategory isDefault breadcrumbs categories =
     filter (\<lambda>b. isDefault b \<and> (case category b of None \<Rightarrow> '''' | Some c \<Rightarrow> c) \<in> set categories)
       breadcrumbs"
    by (simp add: getBreadcrumbsByCategory_def norm conj_commute)
  show ?thesis unfolding eq by auto
qed

theorem getBreadcrumbsByCategory_type_and_category_witness:
  "\<not> crumb_type \<lparr>crumb_type = ''http'', category = Some ''console'', message = ''a''\<rparr> = ''default'' \<and>
   category \<lparr>crumb_type = ''default'', category = None, message = ''b''\<rparr> = None \<and>
   getBreadcrumbsByCategory (\<lambda>b. crumb_type b = ''default'')
     [\<lparr>crumb_type = ''http'', category = Some ''console'', message = ''a''\<rparr>,
      \<lparr>crumb_type = ''default'', category = None, message = ''b''\<rparr>,
      \<lparr>crumb_type = ''default'', category = Some ''ui'', message = ''c''\<rparr>]
     [''console'', ''''] =
   [\<lparr>crumb_type = ''default'', category = None, message = ''b''\<rparr>]"
  using getBreadcrumbsByCategory_type_and_category
    [of "\<lambda>b. crumb_type b = ''default''"
        "[\<lparr>crumb_type = ''http'', category = Some ''console'', message = ''a''\<rparr>,
          \<lparr>crumb_type = ''default'', category = None, message = ''b''\<rparr>,
          \<lparr>crumb_type = ''default'', category = Some ''ui'', message = ''c''\<rparr>]"
        "[''console'', '''']"]
  by simp

section \<open>Properties of the widget library\<close>

lemma list_all2_in_set:
  "list_all2 R xs ys \<Longrightarrow> x \<in> set xs \<Longrightarrow> \<exists>y \<in> set ys. R x y"
  by (induction rule: list_all2_induct) auto

lemma WidgetLibrary_widgets:
  "list_all2 (\<lambda>c w. card_key c = title w \<and> title (card_widget c) = title w \<and>
                     widgetType (card_widget c) = widgetType w)
     (WidgetLibrary imports props)
     (if ''dashboards-releases'' \<in> set (features (wl_organization props))
      then getTopNConvertedDefaultWidgets imports
      else filter (\<lambda>w. widgetType w \<noteq> Some RELEASE) (getTopNConvertedDefaultWidgets imports))"
proof -
  have "list_all2 (\<lambda>c w. card_key c = title w \<and> title (card_widget c) = title w \<and>
                     widgetType (card_widget c) = widgetType w)
          (map (\<lambda>(index, widget). g index widget) (enumerate n ws)) ws"
    if "\<And>i w. card_key (g i w) = title w \<and> title (card_widget (g i w)) = title w \<and>
                widgetType (card_widget (g i w)) = widgetType w"
    for g :: "nat \<Rightarrow> WidgetTemplate \<Rightarrow> Card" and n ws
    using that by (induction ws arbitrary: n) simp_all
  then show ?thesis
    by (simp add: WidgetLibrary_def Let_def)
qed

lemma WidgetLibrary_onClick:
  assumes "c \<in> set (WidgetLibrary imports props)"
  shows "card_onClick c =
           getLibrarySelectionHandler (bypassOverwriteModal props) (card_widget c) (card_iconColor c)"
  using assms by (auto simp: WidgetLibrary_def Let_def)

text \<open>
  C10. Without the feature \<open>dashboards-releases\<close> the cards are those of the default
  widgets that are not of the release type, one card for each in order, and no card's
  widget is of the release type; with the feature there is one card for each default
  widget. A click on a card calls \<open>onWidgetSelect\<close> on the card's widget when
  \<open>bypassOverwriteModal\<close> is set; otherwise it only opens the overwrite modal, whose
  \<open>onConfirm\<close> is that call. So the click itself calls \<open>onWidgetSelect\<close> exactly when
  \<open>bypassOverwriteModal\<close> is set.
\<close>

theorem WidgetLibrary_release_filter_and_select:
  "(''dashboards-releases'' \<notin> set (features (wl_organization props)) \<longrightarrow>
      (\<forall>c \<in> set (WidgetLibrary imports props). widgetType (card_widget c) \<noteq> Some RELEASE) \<and>
      list_all2 (\<lambda>c w. card_key c = title w \<and> widgetType (card_widget c) = widgetType w)
        (WidgetLibrary imports props)
        (filter (\<lambda>w. widgetType w \<noteq> Some RELEASE) (getTopNConvertedDefaultWidgets imports))) \<and>
   (''dashboards-releases'' \<in> set (features (wl_organization props)) \<longrightarrow>
      list_all2 (\<lambda>c w. card_key c = title w \<and> widgetType (card_widget c) = widgetType w)
        (WidgetLibrary imports props) (getTopNConvertedDefaultWidgets imports)) \<and>
   (\<forall>c \<in> set (WidgetLibrary imports props).
      card_onClick c =
        (if bypassOverwriteModal props then [Invoke (OnWidgetSelect (card_widget c))]
         else [OpenWidgetBuilderOverwriteModal (OnWidgetSelect (card_widget c))
                 (card_widget c) (card_iconColor c)]) \<and>
      ((\<exists>w. Invoke (OnWidgetSelect w) \<in> set (card_onClick c)) \<longleftrightarrow> bypassOverwriteModal props))"
proof -
  let ?R = "\<lambda>c w. card_key c = title w \<and> title (card_widget c) = title w \<and>
                     widgetType (card_widget c) = widgetType w"
  let ?R' = "\<lambda>c w. card_key c = title w \<and> widgetType (card_widget c) = widgetType w"
  have weaken: "list_all2 ?R' cs ws" if "list_all2 ?R cs ws" for cs ws
    using that by (rule list_all2_mono) simp
  have absent: "list_all2 ?R' (WidgetLibrary imports props)
        (filter (\<lambda>w. widgetType w \<noteq> Some RELEASE) (getTopNConvertedDefaultWidgets imports))"
    if "''dashboards-releases'' \<notin> set (features (wl_organization props))"
    using WidgetLibrary_widgets [of "imports" props] that by (simp add: weaken)
  have norelease: "\<forall>c \<in> set (WidgetLibrary imports props). widgetType (card_widget c) \<noteq> Some RELEASE"
    if "''dashboards-releases'' \<notin> set (features (wl_organization props))"
  proof
    fix c assume "c \<in> set (WidgetLibrary imports props)"
    with absent [OF that] obtain w where
      "w \<in> set (filter (\<lambda>w. widgetType w \<noteq> Some RELEASE) (getTopNConvertedDefaultWidgets imports))"
      and "widgetType (card_widget c) = widgetType w"
      by (blast dest: list_all2_in_set)
    then show "widgetType (card_widget c) \<noteq> Some RELEASE" by simp
  qed
  have present: "list_all2 ?R' (WidgetLibrary imports props) (getTopNConvertedDefaultWidgets imports)"
    if "''dashboards-releases'' \<in> set (features (wl_organization props))"
    using WidgetLibrary_widgets [of "imports" props] that by (simp add: weaken)
  have click: "\<forall>c \<in> set (WidgetLibrary imports props).
      card_onClick c =
        (if bypassOverwriteModal props then [Invoke (OnWidgetSelect (card_widget c))]
         else [OpenWidgetBuilderOverwriteModal (OnWidgetSelect (card_widget c))
                 (card_widget c) (card_iconColor c)]) \<and>
      ((\<exists>w. Invoke (OnWidgetSelect w) \<in> set (card_onClick c)) \<longleftrightarrow> bypassOverwriteModal props)"
    by (auto simp: WidgetLibrary_onClick getLibrarySelectionHandler_def)
  from absent norelease present click show ?thesis by blast
qed

theorem WidgetLibrary_release_filter_and_select_witness:
  "''dashboards-releases'' \<notin> set (features (wl_organization (example_props [] False))) \<and>
   map card_key (WidgetLibrary example_library (example_props [] False)) = [''Errors''] \<and>
   ''dashboards-releases'' \<in>
      set (features (wl_organization (example_props [''dashboards-releases''] True))) \<and>
   map card_key (WidgetLibrary example_library (example_props [''dashboards-releases''] True))
     = [''Errors'', ''Crash rates''] \<and>
   map card_onClick (WidgetLibrary example_library (example_props [] False)) =
     [[OpenWidgetBuilderOverwriteModal
         (OnWidgetSelect \<lparr>title = ''Errors'', displayType = TABLE,
                           widgetType = Some (OtherWidgetType ''discover''), queries = []\<rparr>)
         \<lparr>title = ''Errors'', displayType = TABLE,
          widgetType = Some (OtherWidgetType ''discover''), queries = []\<rparr>
         (Some ''#444674'')]]"
  using WidgetLibrary_release_filter_and_select [of "example_props [] False" example_library]
    WidgetLibrary_release_filter_and_select
      [of "example_props [''dashboards-releases''] True" example_library]
  by (simp add: WidgetLibrary_def example_props_def example_library_def example_widgets_def
        getLibrarySelectionHandler_def js_index_def Let_def)

section \<open>Properties of the memoised memory spans\<close>

lemma memo_after_useMemo:
  "memo (snd (useMemo (memorySpans_callback heap replay) replay st)) =
     Some (replay, fst (fst (useMemo (memorySpans_callback heap replay) replay st)))"
proof (cases "\<exists>v. memo st = Some (replay, v)")
  case True
  then show ?thesis by (auto simp: useMemo_cases)
next
  case False
  then show ?thesis by (simp add: useMemo_cases)
qed

lemma useMemo_hit:
  assumes "memo st = Some (replay, v)"
  shows "useMemo callback replay st = ((v, False), st)"
  using assms by (simp add: useMemo_def)

lemma useMemo_miss:
  assumes "memo st = Some (Some a, v)" and "a \<noteq> b"
  shows "useMemo (memorySpans_callback heap (Some b)) (Some b) st =
           ((Some \<lparr>array_ref = next_ref st,
                    elems = filter (isMemorySpan (heap b)) (getRawSpans (heap b))\<rparr>, True),
            st\<lparr>next_ref := Suc (next_ref st),
               memo := Some (Some b,
                 Some \<lparr>array_ref = next_ref st,
                       elems = filter (isMemorySpan (heap b)) (getRawSpans (heap b))\<rparr>)\<rparr>)"
  using assms by (simp add: useMemo_def memorySpans_callback_def)

lemma steps_FocusArea:
  "steps (FocusArea imports heap st replay) =
     [ResolveActiveKey] @
     (if snd (fst (useMemo (memorySpans_callback heap replay) replay st)) \<and> replay \<noteq> None
      then [ComputeDerived MemorySubset] else []) @
     [ReadinessCheck] @
     (if replay = None \<or> fst (fst (useMemo (memorySpans_callback heap replay) replay st)) = None
      then []
      else PanelLookup #
        (if useActiveTabFromLocation imports = ''console'' then [ComputeDerived ConsoleSubset]
         else if useActiveTabFromLocation imports = ''network'' then [ComputeDerived NonMemorySubset]
         else []))"
  by (auto simp: FocusArea_def Let_def split: prod.splits option.splits)

lemma placeholder_FocusArea:
  "rendered (FocusArea imports heap st replay) = Placeholder ''150px'' \<longleftrightarrow>
     replay = None \<or> fst (fst (useMemo (memorySpans_callback heap replay) replay st)) = None"
  by (auto simp: FocusArea_def Let_def split: prod.splits option.splits)

lemma FocusArea_memory_chart:
  assumes "fst (fst (useMemo (memorySpans_callback heap (Some a)) (Some a) st)) = Some spans"
    and "useActiveTabFromLocation imports = ''memory''"
  shows "\<exists>p. rendered (FocusArea imports heap st (Some a)) = MemoryChart p \<and>
             mc_memorySpans p = spans"
  using FocusArea_ready [OF assms(1), of "imports"] assms(2) by (simp add: Let_def)

text \<open>
  C5. The memoised memory spans of \<open>FocusArea\<close> are keyed on the identity of the
  replay. A render with the replay of the render before it does not compute the
  memory subset and leaves the hook state as it is, and the memory chart receives the
  very array, of the same reference, that it received before. A render with a
  replay of another identity computes the memory subset anew, caches it for the new
  replay, and the array the memory chart receives holds the new replay's memory
  spans and has a reference different from the previous array's.
\<close>

theorem FocusArea_memorySpans_cached_by_identity:
  assumes "memo_ok heap st"
  shows
    "(let r1 = FocusArea importsA heap st replay;
          r2 = FocusArea importsB heap (hooks_after r1) replay
      in ComputeDerived MemorySubset \<notin> set (steps r2) \<and> hooks_after r2 = hooks_after r1) \<and>
     (let r1 = FocusArea importsA heap st (Some a);
          r2 = FocusArea importsB heap (hooks_after r1) (Some a)
      in useActiveTabFromLocation importsA = ''memory'' \<and>
         useActiveTabFromLocation importsB = ''memory'' \<longrightarrow>
         (\<exists>p1 p2. rendered r1 = MemoryChart p1 \<and> rendered r2 = MemoryChart p2 \<and>
                   mc_memorySpans p2 = mc_memorySpans p1)) \<and>
     (\<forall>b. b \<noteq> a \<longrightarrow>
        (let r1 = FocusArea importsA heap st (Some a);
             r2 = FocusArea importsB heap (hooks_after r1) (Some b)
         in ComputeDerived MemorySubset \<in> set (steps r2) \<and>
            (\<exists>arr1 arr2. memo (hooks_after r1) = Some (Some a, Some arr1) \<and>
                          memo (hooks_after r2) = Some (Some b, Some arr2) \<and>
                          array_ref arr2 \<noteq> array_ref arr1 \<and>
                          elems arr2 = filter (isMemorySpan (heap b)) (getRawSpans (heap b))) \<and>
            (useActiveTabFromLocation importsA = ''memory'' \<and>
             useActiveTabFromLocation importsB = ''memory'' \<longrightarrow>
             (\<exists>p1 p2. rendered r1 = MemoryChart p1 \<and> rendered r2 = MemoryChart p2 \<and>
                       array_ref (mc_memorySpans p2) \<noteq> array_ref (mc_memorySpans p1) \<and>
                       elems (mc_memorySpans p2) =
                         filter (isMemorySpan (heap b)) (getRawSpans (heap b))))))"
proof -
  have same: "useMemo (memorySpans_callback heap r) r
                (snd (useMemo (memorySpans_callback heap r) r st)) =
                ((fst (fst (useMemo (memorySpans_callback heap r) r st)), False),
                 snd (useMemo (memorySpans_callback heap r) r st))" for r
    by (rule useMemo_hit) (rule memo_after_useMemo)
  have one: "let r1 = FocusArea importsA heap st replay;
                 r2 = FocusArea importsB heap (hooks_after r1) replay
             in ComputeDerived MemorySubset \<notin> set (steps r2) \<and> hooks_after r2 = hooks_after r1"
    by (simp add: Let_def steps_FocusArea hooks_after_FocusArea same)
  let ?U1 = "useMemo (memorySpans_callback heap (Some a)) (Some a) st"
  from useMemo_available [OF assms, of a] obtain arr1 where
    v1: "fst (fst ?U1) = Some arr1" by blast
  have m1: "memo (snd ?U1) = Some (Some a, Some arr1)"
    using memo_after_useMemo [of heap "Some a" st] v1 by simp
  have ok1: "memo_ok heap (snd ?U1)" using assms by (rule memo_ok_useMemo)
  from m1 ok1 have fresh: "array_ref arr1 < next_ref (snd ?U1)"
    by (simp add: memo_ok_def)
  have two: "let r1 = FocusArea importsA heap st (Some a);
                 r2 = FocusArea importsB heap (hooks_after r1) (Some a)
             in useActiveTabFromLocation importsA = ''memory'' \<and>
                useActiveTabFromLocation importsB = ''memory'' \<longrightarrow>
                (\<exists>p1 p2. rendered r1 = MemoryChart p1 \<and> rendered r2 = MemoryChart p2 \<and>
                          mc_memorySpans p2 = mc_memorySpans p1)"
  proof -
    have "\<exists>p1 p2. rendered (FocusArea importsA heap st (Some a)) = MemoryChart p1 \<and>
            rendered (FocusArea importsB heap (snd ?U1) (Some a)) = MemoryChart p2 \<and>
            mc_memorySpans p2 = mc_memorySpans p1"
      if t1: "useActiveTabFromLocation importsA = ''memory''"
        and t2: "useActiveTabFromLocation importsB = ''memory''"
    proof -
      from FocusArea_memory_chart [OF v1 t1] obtain p1 where
        p1: "rendered (FocusArea importsA heap st (Some a)) = MemoryChart p1"
          "mc_memorySpans p1 = arr1" by blast
      have "fst (fst (useMemo (memorySpans_callback heap (Some a)) (Some a) (snd ?U1))) = Some arr1"
        by (simp add: same v1)
      from FocusArea_memory_chart [OF this t2] obtain p2 where
        "rendered (FocusArea importsB heap (snd ?U1) (Some a)) = MemoryChart p2"
        "mc_memorySpans p2 = arr1" by blast
      with p1 show ?thesis by simp
    qed
    then show ?thesis by (simp add: Let_def hooks_after_FocusArea)
  qed
  have three: "let r1 = FocusArea importsA heap st (Some a);
             r2 = FocusArea importsB heap (hooks_after r1) (Some b)
         in ComputeDerived MemorySubset \<in> set (steps r2) \<and>
            (\<exists>arr1 arr2. memo (hooks_after r1) = Some (Some a, Some arr1) \<and>
                          memo (hooks_after r2) = Some (Some b, Some arr2) \<and>
                          array_ref arr2 \<noteq> array_ref arr1 \<and>
                          elems arr2 = filter (isMemorySpan (heap b)) (getRawSpans (heap b))) \<and>
            (useActiveTabFromLocation importsA = ''memory'' \<and>
             useActiveTabFromLocation importsB = ''memory'' \<longrightarrow>
             (\<exists>p1 p2. rendered r1 = MemoryChart p1 \<and> rendered r2 = MemoryChart p2 \<and>
                       array_ref (mc_memorySpans p2) \<noteq> array_ref (mc_memorySpans p1) \<and>
                       elems (mc_memorySpans p2) =
                         filter (isMemorySpan (heap b)) (getRawSpans (heap b))))"
    if ne: "b \<noteq> a" for b
  proof -
    let ?arr2 = "\<lparr>array_ref = next_ref (snd ?U1),
                  elems = filter (isMemorySpan (heap b)) (getRawSpans (heap b))\<rparr>"
    let ?U2 = "useMemo (memorySpans_callback heap (Some b)) (Some b) (snd ?U1)"
    from ne have ne': "a \<noteq> b" by simp
    note miss = useMemo_miss [OF m1 ne', of heap]
    have c: "snd (fst ?U2)" and v2: "fst (fst ?U2) = Some ?arr2"
      and m2: "memo (snd ?U2) = Some (Some b, Some ?arr2)"
      by (simp_all add: miss)
    have s: "ComputeDerived MemorySubset \<in>
               set (steps (FocusArea importsB heap (snd ?U1) (Some b)))"
      using c by (simp add: steps_FocusArea)
    have d: "array_ref ?arr2 \<noteq> array_ref arr1" using fresh by simp
    have slot: "\<exists>arr1 arr2. memo (snd ?U1) = Some (Some a, Some arr1) \<and>
                  memo (snd ?U2) = Some (Some b, Some arr2) \<and>
                  array_ref arr2 \<noteq> array_ref arr1 \<and>
                  elems arr2 = filter (isMemorySpan (heap b)) (getRawSpans (heap b))"
      using m1 m2 d by simp
    have chart: "\<exists>p1 p2. rendered (FocusArea importsA heap st (Some a)) = MemoryChart p1 \<and>
            rendered (FocusArea importsB heap (snd ?U1) (Some b)) = MemoryChart p2 \<and>
            array_ref (mc_memorySpans p2) \<noteq> array_ref (mc_memorySpans p1) \<and>
            elems (mc_memorySpans p2) = filter (isMemorySpan (heap b)) (getRawSpans (heap b))"
      if t1: "useActiveTabFromLocation importsA = ''memory''"
        and t2: "useActiveTabFromLocation importsB = ''memory''"
    proof -
      from FocusArea_memory_chart [OF v1 t1] obtain p1 where
        p1: "rendered (FocusArea importsA heap st (Some a)) = MemoryChart p1"
          "mc_memorySpans p1 = arr1" by blast
      from FocusArea_memory_chart [OF v2 t2] obtain p2 where
        p2: "rendered (FocusArea importsB heap (snd ?U1) (Some b)) = MemoryChart p2"
          "mc_memorySpans p2 = ?arr2" by blast
      from p1 p2 d show ?thesis by simp
    qed
    from s slot chart show ?thesis
      by (simp add: Let_def hooks_after_FocusArea)
  qed
  from one two three show ?thesis by blast
qed

theorem FocusArea_memorySpans_cached_by_identity_witness:
  "memo_ok example_heap initial_hooks \<and> (1::nat) \<noteq> 0 \<and>
   useActiveTabFromLocation (example_imports ''memory'') = ''memory'' \<and>
   (\<exists>p1 p2 p3.
      rendered (FocusArea (example_imports ''memory'') example_heap initial_hooks (Some 0))
        = MemoryChart p1 \<and>
      rendered (FocusArea (example_imports ''memory'') example_heap
                  (hooks_after (FocusArea (example_imports ''memory'') example_heap
                                  initial_hooks (Some 0))) (Some 0))
        = MemoryChart p2 \<and>
      rendered (FocusArea (example_imports ''memory'') example_heap
                  (hooks_after (FocusArea (example_imports ''memory'') example_heap
                                  initial_hooks (Some 0))) (Some 1))
        = MemoryChart p3 \<and>
      mc_memorySpans p1 = \<lparr>array_ref = 0, elems = [example_memory_span]\<rparr> \<and>
      mc_memorySpans p2 = mc_memorySpans p1 \<and>
      array_ref (mc_memorySpans p3) \<noteq> array_ref (mc_memorySpans p1) \<and>
      elems (mc_memorySpans p3) = [example_memory_span])"
proof -
  let ?i = "example_imports ''memory''"
  let ?r1 = "FocusArea ?i example_heap initial_hooks (Some 0)"
  have h: "memo_ok example_heap initial_hooks" by (rule memo_ok_initial)
  have t: "useActiveTabFromLocation ?i = ''memory''" by (simp add: example_imports_def)
  have f: "filter (isMemorySpan (example_heap a)) (getRawSpans (example_heap a)) =
             [example_memory_span]" for a
    by (simp add: example_heap_def example_replay_def example_spans_def
          example_memory_span_def example_http_span_def js_get_def)
  have u0: "fst (fst (useMemo (memorySpans_callback example_heap (Some 0)) (Some 0) initial_hooks)) =
     Some \<lparr>array_ref = 0, elems = [example_memory_span]\<rparr>"
    by (simp add: useMemo_def memorySpans_callback_def initial_hooks_def f)
  from FocusArea_memory_chart [OF u0 t] obtain p0 where
    p0: "rendered ?r1 = MemoryChart p0"
      "mc_memorySpans p0 = \<lparr>array_ref = 0, elems = [example_memory_span]\<rparr>"
    by blast
  note inst = FocusArea_memorySpans_cached_by_identity
               [OF h, where importsA = "?i" and importsB = "?i" and a = "0"
                  and replay = "Some 0"]
  from inst t obtain p1 p2 where
    s1: "rendered ?r1 = MemoryChart p1"
    and s2: "rendered (FocusArea ?i example_heap (hooks_after ?r1) (Some 0)) = MemoryChart p2"
    and s3: "mc_memorySpans p2 = mc_memorySpans p1"
    unfolding Let_def by blast
  from inst t have "\<exists>p1 p3. rendered ?r1 = MemoryChart p1 \<and>
      rendered (FocusArea ?i example_heap (hooks_after ?r1) (Some 1)) = MemoryChart p3 \<and>
      array_ref (mc_memorySpans p3) \<noteq> array_ref (mc_memorySpans p1) \<and>
      elems (mc_memorySpans p3) =
        filter (isMemorySpan (example_heap 1)) (getRawSpans (example_heap 1))"
    unfolding Let_def by (metis One_nat_def zero_neq_one)
  then obtain p1' p3 where
    d1: "rendered ?r1 = MemoryChart p1'"
    and d2: "rendered (FocusArea ?i example_heap (hooks_after ?r1) (Some 1)) = MemoryChart p3"
    and d3: "array_ref (mc_memorySpans p3) \<noteq> array_ref (mc_memorySpans p1')"
    and d4: "elems (mc_memorySpans p3) =
        filter (isMemorySpan (example_heap 1)) (getRawSpans (example_heap 1))"
    by blast
  from s1 p0 have e1: "p1 = p0" by simp
  from d1 p0 have e2: "p1' = p0" by simp
  from p0 s2 s3 d2 d3 d4 e1 e2 f [of 1] have
    "rendered ?r1 = MemoryChart p0 \<and>
     rendered (FocusArea ?i example_heap (hooks_after ?r1) (Some 0)) = MemoryChart p2 \<and>
     rendered (FocusArea ?i example_heap (hooks_after ?r1) (Some 1)) = MemoryChart p3 \<and>
     mc_memorySpans p0 = \<lparr>array_ref = 0, elems = [example_memory_span]\<rparr> \<and>
     mc_memorySpans p2 = mc_memorySpans p0 \<and>
     array_ref (mc_memorySpans p3) \<noteq> array_ref (mc_memorySpans p0) \<and>
     elems (mc_memorySpans p3) = [example_memory_span]"
    by simp
  then have "\<exists>p1 p2 p3.
      rendered ?r1 = MemoryChart p1 \<and>
      rendered (FocusArea ?i example_heap (hooks_after ?r1) (Some 0)) = MemoryChart p2 \<and>
      rendered (FocusArea ?i example_heap (hooks_after ?r1) (Some 1)) = MemoryChart p3 \<and>
      mc_memorySpans p1 = \<lparr>array_ref = 0, elems = [example_memory_span]\<rparr> \<and>
      mc_memorySpans p2 = mc_memorySpans p1 \<and>
      array_ref (mc_memorySpans p3) \<noteq> array_ref (mc_memorySpans p1) \<and>
      elems (mc_memorySpans p3) = [example_memory_span]"
    by blast
  with h t show ?thesis by simp
qed

section \<open>Which derived inputs a render computes, and in which order\<close>

text \<open>
  C6, as the source has it. The non-memory subset is computed only when the active
  tab is \<open>network\<close>, so not in a render of the memory panel. The memory subset is
  computed, whatever the active tab is, exactly when a replay is available and the
  memoisation slot holds no value for that replay (the first render with a replay,
  or a replay of another identity); it is not computed when the slot holds one, nor
  when the replay is \<open>null\<close>.
\<close>

theorem FocusArea_derived_inputs_computed:
  "(ComputeDerived NonMemorySubset \<in> set (steps (FocusArea imports heap st replay))
      \<longrightarrow> useActiveTabFromLocation imports = ''network'') \<and>
   (useActiveTabFromLocation imports = ''memory''
      \<longrightarrow> ComputeDerived NonMemorySubset \<notin> set (steps (FocusArea imports heap st replay))) \<and>
   (ComputeDerived MemorySubset \<in> set (steps (FocusArea imports heap st replay))
      \<longleftrightarrow> replay \<noteq> None \<and> (\<forall>v. memo st \<noteq> Some (replay, v)))"
proof -
  have "snd (fst (useMemo (memorySpans_callback heap replay) replay st))
          \<longleftrightarrow> (\<forall>v. memo st \<noteq> Some (replay, v))"
    by (simp add: useMemo_cases)
  then show ?thesis by (auto simp: steps_FocusArea)
qed

theorem FocusArea_derived_inputs_computed_witness:
  "useActiveTabFromLocation (example_imports ''memory'') = ''memory'' \<and>
   steps (FocusArea (example_imports ''memory'') example_heap initial_hooks (Some 0)) =
     [ResolveActiveKey, ComputeDerived MemorySubset, ReadinessCheck, PanelLookup] \<and>
   steps (FocusArea (example_imports ''memory'') example_heap
            (hooks_after (FocusArea (example_imports ''network'') example_heap initial_hooks (Some 0)))
            (Some 0)) =
     [ResolveActiveKey, ReadinessCheck, PanelLookup] \<and>
   steps (FocusArea (example_imports ''network'') example_heap initial_hooks (Some 0)) =
     [ResolveActiveKey, ComputeDerived MemorySubset, ReadinessCheck, PanelLookup,
      ComputeDerived NonMemorySubset]"
proof -
  have h: "useActiveTabFromLocation (example_imports tab) = tab" for tab
    by (simp add: example_imports_def)
  have m0: "memo initial_hooks = None" by (simp add: initial_hooks_def)
  have u0: "useMemo (memorySpans_callback example_heap (Some 0)) (Some 0) initial_hooks =
     ((Some \<lparr>array_ref = 0, elems = filter (isMemorySpan (example_heap 0)) (getRawSpans (example_heap 0))\<rparr>, True),
      \<lparr>memo = Some (Some 0, Some \<lparr>array_ref = 0,
          elems = filter (isMemorySpan (example_heap 0)) (getRawSpans (example_heap 0))\<rparr>),
       next_ref = Suc 0\<rparr>)"
    by (simp add: useMemo_def memorySpans_callback_def initial_hooks_def)
  have s1: "steps (FocusArea (example_imports ''memory'') example_heap initial_hooks (Some 0)) =
     [ResolveActiveKey, ComputeDerived MemorySubset, ReadinessCheck, PanelLookup]"
    by (simp add: steps_FocusArea u0 h)
  have s3: "steps (FocusArea (example_imports ''network'') example_heap initial_hooks (Some 0)) =
     [ResolveActiveKey, ComputeDerived MemorySubset, ReadinessCheck, PanelLookup,
      ComputeDerived NonMemorySubset]"
    by (simp add: steps_FocusArea u0 h)
  have ha: "hooks_after (FocusArea (example_imports ''network'') example_heap initial_hooks (Some 0)) =
      \<lparr>memo = Some (Some 0, Some \<lparr>array_ref = 0,
          elems = filter (isMemorySpan (example_heap 0)) (getRawSpans (example_heap 0))\<rparr>),
       next_ref = Suc 0\<rparr>"
    by (simp add: hooks_after_FocusArea u0)
  have u1: "useMemo (memorySpans_callback example_heap (Some 0)) (Some 0)
      \<lparr>memo = Some (Some 0, Some \<lparr>array_ref = 0,
          elems = filter (isMemorySpan (example_heap 0)) (getRawSpans (example_heap 0))\<rparr>),
       next_ref = Suc 0\<rparr> =
     ((Some \<lparr>array_ref = 0, elems = filter (isMemorySpan (example_heap 0)) (getRawSpans (example_heap 0))\<rparr>, False),
      \<lparr>memo = Some (Some 0, Some \<lparr>array_ref = 0,
          elems = filter (isMemorySpan (example_heap 0)) (getRawSpans (example_heap 0))\<rparr>),
       next_ref = Suc 0\<rparr>)"
    by (simp add: useMemo_def)
  have s2: "steps (FocusArea (example_imports ''memory'') example_heap
            (hooks_after (FocusArea (example_imports ''network'') example_heap initial_hooks (Some 0)))
            (Some 0)) =
     [ResolveActiveKey, ReadinessCheck, PanelLookup]"
    unfolding ha by (simp add: steps_FocusArea u1 h)
  from FocusArea_derived_inputs_computed
         [of "example_imports ''memory''" example_heap initial_hooks "Some 0"]
       h s1 s2 s3
  show ?thesis by simp
qed

text \<open>
  The first render of the console panel computes the memory subset, which that panel
  does not use: the \<open>useMemo\<close> call stands above the \<open>switch\<close>.
\<close>

theorem FocusArea_memory_subset_computed_for_console:
  "useActiveTabFromLocation (example_imports ''console'') = ''console'' \<and>
   ComputeDerived MemorySubset \<in>
     set (steps (FocusArea (example_imports ''console'') example_heap initial_hooks (Some 0)))"
proof -
  have u0: "useMemo (memorySpans_callback example_heap (Some 0)) (Some 0) initial_hooks =
     ((Some \<lparr>array_ref = 0, elems = filter (isMemorySpan (example_heap 0)) (getRawSpans (example_heap 0))\<rparr>, True),
      \<lparr>memo = Some (Some 0, Some \<lparr>array_ref = 0,
          elems = filter (isMemorySpan (example_heap 0)) (getRawSpans (example_heap 0))\<rparr>),
       next_ref = Suc 0\<rparr>)"
    by (simp add: useMemo_def memorySpans_callback_def initial_hooks_def)
  show ?thesis by (simp add: steps_FocusArea u0 example_imports_def)
qed

text \<open>
  C7, as the source has it. Every render performs its steps in one order: the active
  key is resolved first, also when the replay is unavailable; then the memoised
  memory subset is obtained, computed on a miss only; then comes the readiness
  check. Nothing follows the check when the placeholder is rendered, which happens
  exactly when the replay or the memory subset is unavailable; otherwise the panel
  lookup follows it, once, and then at most the panel's own derived input.
\<close>

theorem FocusArea_step_order:
  "\<exists>pre post.
     steps (FocusArea imports heap st replay) = ResolveActiveKey # pre @ ReadinessCheck # post \<and>
     (pre = [] \<or> pre = [ComputeDerived MemorySubset]) \<and>
     (rendered (FocusArea imports heap st replay) = Placeholder ''150px'' \<longleftrightarrow>
        replay = None \<or> fst (fst (useMemo (memorySpans_callback heap replay) replay st)) = None) \<and>
     (if rendered (FocusArea imports heap st replay) = Placeholder ''150px'' then post = []
      else \<exists>own. post = PanelLookup # own \<and>
             (own = [] \<or> own = [ComputeDerived ConsoleSubset] \<or>
              own = [ComputeDerived NonMemorySubset])) \<and>
     (replay = None \<longrightarrow> PanelLookup \<notin> set (steps (FocusArea imports heap st replay)))"
proof -
  let ?U = "useMemo (memorySpans_callback heap replay) replay st"
  let ?pre = "if snd (fst ?U) \<and> replay \<noteq> None then [ComputeDerived MemorySubset] else []"
  let ?post = "if replay = None \<or> fst (fst ?U) = None then []
      else PanelLookup #
        (if useActiveTabFromLocation imports = ''console'' then [ComputeDerived ConsoleSubset]
         else if useActiveTabFromLocation imports = ''network'' then [ComputeDerived NonMemorySubset]
         else [])"
  have s: "steps (FocusArea imports heap st replay) = ResolveActiveKey # ?pre @ ReadinessCheck # ?post"
    by (simp add: steps_FocusArea)
  have p: "?pre = [] \<or> ?pre = [ComputeDerived MemorySubset]" by simp
  note r = placeholder_FocusArea [of "imports" heap st replay]
  have q: "if rendered (FocusArea imports heap st replay) = Placeholder ''150px'' then ?post = []
      else \<exists>own. ?post = PanelLookup # own \<and>
             (own = [] \<or> own = [ComputeDerived ConsoleSubset] \<or>
              own = [ComputeDerived NonMemorySubset])"
    unfolding r by simp
  have n: "replay = None \<longrightarrow> PanelLookup \<notin> set (steps (FocusArea imports heap st replay))"
    by (simp add: steps_FocusArea)
  show ?thesis
    by (rule exI [of _ "?pre"], rule exI [of _ "?post"]) (intro conjI s p r q n)
qed

theorem FocusArea_step_order_witness:
  "rendered (FocusArea (example_imports ''trace'') example_heap initial_hooks (Some 0)) =
     Trace (useOrganization (example_imports ''trace'')) (getEvent (example_heap 0)) \<and>
   steps (FocusArea (example_imports ''trace'') example_heap initial_hooks (Some 0)) =
     [ResolveActiveKey, ComputeDerived MemorySubset, ReadinessCheck, PanelLookup] \<and>
   PanelLookup \<notin> set (steps (FocusArea (example_imports ''trace'') example_heap initial_hooks None))"
proof -
  have u0: "useMemo (memorySpans_callback example_heap (Some 0)) (Some 0) initial_hooks =
     ((Some \<lparr>array_ref = 0, elems = filter (isMemorySpan (example_heap 0)) (getRawSpans (example_heap 0))\<rparr>, True),
      \<lparr>memo = Some (Some 0, Some \<lparr>array_ref = 0,
          elems = filter (isMemorySpan (example_heap 0)) (getRawSpans (example_heap 0))\<rparr>),
       next_ref = Suc 0\<rparr>)"
    by (simp add: useMemo_def memorySpans_callback_def initial_hooks_def)
  have v: "rendered (FocusArea (example_imports ''trace'') example_heap initial_hooks (Some 0)) =
     Trace (useOrganization (example_imports ''trace'')) (getEvent (example_heap 0))"
    using FocusArea_ready [of example_heap 0 initial_hooks _ "example_imports ''trace''"]
    by (simp add: u0 example_imports_def)
  have s: "steps (FocusArea (example_imports ''trace'') example_heap initial_hooks (Some 0)) =
     [ResolveActiveKey, ComputeDerived MemorySubset, ReadinessCheck, PanelLookup]"
    by (simp add: steps_FocusArea u0 example_imports_def)
  from FocusArea_step_order [of "example_imports ''trace''" example_heap initial_hooks None]
  have "PanelLookup \<notin> set (steps (FocusArea (example_imports ''trace'') example_heap initial_hooks None))"
    by blast
  with v s show ?thesis by simp
qed

text \<open>
  With the replay unavailable and the tab \<open>trace\<close>, the placeholder is rendered; the
  active key has been resolved all the same, before the readiness check.
\<close>

theorem FocusArea_resolves_key_before_readiness:
  "rendered (FocusArea (example_imports ''trace'') example_heap initial_hooks None) =
     Placeholder ''150px'' \<and>
   steps (FocusArea (example_imports ''trace'') example_heap initial_hooks None) =
     [ResolveActiveKey, ReadinessCheck]"
proof -
  have u0: "useMemo (memorySpans_callback example_heap None) None initial_hooks =
     ((None, True), \<lparr>memo = Some (None, None), next_ref = 0\<rparr>)"
    by (simp add: useMemo_def memorySpans_callback_def initial_hooks_def)
  show ?thesis by (simp add: steps_FocusArea placeholder_FocusArea u0)
qed

end
